theory Spec2Isabelle
  imports Main "HOL-Library.Sublist"
begin

section \<open>The gpg command-line wrapper (gpg/cli/gpg.go)\<close>

text \<open>
  The wrapper drives an external OpenPGP program and keeps two caches of key listings.
  The embedding passes two pieces of state explicitly: the wrapper object (\<open>GPG\<close>) and the
  world outside the process (\<open>world\<close>): the external program, the environment and the
  file system. Every source function returns its Go results together with the new states.
  Debug printing to the console (\<open>ctxutil.IsDebug\<close>) changes no result and is left out;
  cancellation of the context reaches the caller as the error of the invocation.
\<close>

subsection \<open>Errors\<close>

datatype error =
    ProcError string
  | FileError string string
  | Wrapped string error
  | Errorf string

text \<open>
  \<open>ProcError\<close> is a failure reported by os/exec (the program did not start, exited
  non-zero or was cancelled), \<open>FileError op path\<close> a failure of the file system,
  \<open>Wrapped msg cause\<close> the result of \<open>errors.Wrapf(cause, msg)\<close> and \<open>Errorf msg\<close> the
  result of \<open>errors.Errorf(msg)\<close>.
\<close>

fun hasContext :: "error \<Rightarrow> bool" where
  "hasContext (Wrapped msg cause) = True"
| "hasContext e = False"

subsection \<open>The world: external program, environment, files\<close>

datatype capture = CaptureStdout | CaptureCombined | CaptureNone

record Cmd =
  Path :: string
  Args :: "string list"
  Stdin :: string

record proc_result =
  captured :: string
  failure :: "error option"

text \<open>
  The external program is a stub that may answer differently at every invocation:
  \<open>responses w n\<close> is what invocation number \<open>n\<close> yields (the bytes the call captures and
  the error of the call), and \<open>trace w\<close> lists the invocations made so far.
  \<open>files\<close> holds the contents of the files and \<open>modes\<close> their permission bits;
  \<open>faults w path\<close> is the error that opening \<open>path\<close> gives, if any, and
  \<open>dirFaults w path\<close> the error that \<open>os.MkdirAll(filepath.Dir(path), dirPerm)\<close>
  gives, if any (directories themselves are not part of the model).
\<close>

record world =
  responses :: "nat \<Rightarrow> proc_result"
  trace :: "(capture \<times> Cmd) list"
  environ :: "string \<rightharpoonup> string"
  files :: "string \<rightharpoonup> string"
  modes :: "string \<rightharpoonup> nat"
  faults :: "string \<rightharpoonup> error"
  dirFaults :: "string \<rightharpoonup> error"
  resolve :: "string \<Rightarrow> string"

abbreviation nextResponse :: "world \<Rightarrow> proc_result" where
  "nextResponse w \<equiv> responses w (length (trace w))"

definition invoke :: "capture \<Rightarrow> Cmd \<Rightarrow> world \<Rightarrow> proc_result \<times> world" where
  "invoke mode c w = (nextResponse w, w\<lparr>trace := trace w @ [(mode, c)]\<rparr>)"

text \<open>\<open>exec.CommandContext\<close>: \<open>Args\<close> starts with the program name; \<open>resolve\<close> is the
  path lookup that fills \<open>Path\<close>.\<close>

definition CommandContext :: "world \<Rightarrow> string \<Rightarrow> string list \<Rightarrow> Cmd" where
  "CommandContext w name arg = \<lparr>Path = resolve w name, Args = name # arg, Stdin = []\<rparr>"

definition Output :: "Cmd \<Rightarrow> world \<Rightarrow> proc_result \<times> world" where
  "Output c w = invoke CaptureStdout c w"

definition CombinedOutput :: "Cmd \<Rightarrow> world \<Rightarrow> proc_result \<times> world" where
  "CombinedOutput c w = invoke CaptureCombined c w"

definition Run :: "Cmd \<Rightarrow> world \<Rightarrow> error option \<times> world" where
  "Run c w = (let (r, w') = invoke CaptureNone c w in (failure r, w'))"

definition Setenv :: "world \<Rightarrow> string \<Rightarrow> string \<Rightarrow> world" where
  "Setenv w k v = w\<lparr>environ := (environ w)(k \<mapsto> v)\<rparr>"

definition ReadFile :: "world \<Rightarrow> string \<Rightarrow> error + string" where
  "ReadFile w filename =
     (case faults w filename of
        Some e \<Rightarrow> Inl e
      | None \<Rightarrow> (case files w filename of
                   None \<Rightarrow> Inl (FileError ''open'' filename)
                 | Some data \<Rightarrow> Inr data))"

text \<open>\<open>ioutil.WriteFile\<close>: the permission bits are those of the file when it exists
  and \<open>perm\<close> when the call creates it.\<close>

definition WriteFile :: "world \<Rightarrow> string \<Rightarrow> string \<Rightarrow> nat \<Rightarrow> error option \<times> world" where
  "WriteFile w filename data perm =
     (case faults w filename of
        Some e \<Rightarrow> (Some e, w)
      | None \<Rightarrow>
          (None, w\<lparr>files := (files w)(filename \<mapsto> data),
                     modes := (case files w filename of
                                 None \<Rightarrow> (modes w)(filename \<mapsto> perm)
                               | Some old \<Rightarrow> modes w)\<rparr>))"

text \<open>The constants \<open>fileMode = 0600\<close> and \<open>dirPerm = 0700\<close> (octal).\<close>

definition fileMode :: nat where
  "fileMode = 6 * 8 * 8"

definition dirPerm :: nat where
  "dirPerm = 7 * 8 * 8"

text \<open>\<open>fmt\<close>'s \<open>%+v\<close> of a string slice: the elements between brackets, separated by
  spaces.\<close>

fun joinWith :: "string \<Rightarrow> string list \<Rightarrow> string" where
  "joinWith sep [] = []"
| "joinWith sep [x] = x"
| "joinWith sep (x # y # ys) = x @ sep @ joinWith sep (y # ys)"

definition fmtCmd :: "Cmd \<Rightarrow> string" where
  "fmtCmd c = Path c @ '' ['' @ joinWith '' '' (Args c) @ '']''"

text \<open>\<open>bytes.Contains\<close>: the empty slice is contained in every slice.\<close>

fun Contains :: "string \<Rightarrow> string \<Rightarrow> bool" where
  "Contains [] sep = (sep = [])"
| "Contains (x # xs) sep = (prefix sep (x # xs) \<or> Contains xs sep)"

subsection \<open>The wrapper object\<close>

text \<open>
  \<open>gpg.KeyList\<close> is declared in another package; the wrapper compares it with \<open>nil\<close> and
  builds it with the literal \<open>gpg.KeyList{}\<close>, so it is a slice: either \<open>nil\<close> or an
  allocated sequence of keys, possibly empty. The type of keys is left open (\<open>'k\<close>).
\<close>

datatype 'k KeyList = nil | KeyList "'k list"

record 'k GPG =
  binary :: string
  args :: "string list"
  pubKeys :: "'k KeyList"
  privKeys :: "'k KeyList"
  alwaysTrust :: bool

subsection \<open>Listing keys\<close>

text \<open>
  \<open>parseColons\<close> is defined in another file of the package; it is a parameter \<open>pc\<close> of
  every operation that lists keys: the function from the listing's output to the key list.
\<close>

definition listKeys ::
  "(string \<Rightarrow> 'k KeyList) \<Rightarrow> 'k GPG \<Rightarrow> world \<Rightarrow> string \<Rightarrow> string list
     \<Rightarrow> ('k KeyList \<times> error option) \<times> world" where
  "listKeys pc g w typ search =
     (let args0 = [''--with-colons'', ''--with-fingerprint'', ''--fixed-list-mode'',
                   ''--list-'' @ typ @ ''-keys''] @ search;
          cmd = CommandContext w (binary g) args0;
          (r, w') = Output cmd w
      in case failure r of
           Some err \<Rightarrow>
             if Contains (captured r) ''secret key not available''
             then ((KeyList [], None), w')
             else ((KeyList [], Some err), w')
         | None \<Rightarrow> ((pc (captured r), None), w'))"

definition ListPublicKeys ::
  "(string \<Rightarrow> 'k KeyList) \<Rightarrow> 'k GPG \<Rightarrow> world
     \<Rightarrow> ('k KeyList \<times> error option) \<times> 'k GPG \<times> world" where
  "ListPublicKeys pc g w =
     (if pubKeys g = nil then
        (case listKeys pc g w ''public'' [] of
           ((kl, Some err), w') \<Rightarrow> ((nil, Some err), g, w')
         | ((kl, None), w') \<Rightarrow> ((kl, None), g\<lparr>pubKeys := kl\<rparr>, w'))
      else ((pubKeys g, None), g, w))"

definition FindPublicKeys ::
  "(string \<Rightarrow> 'k KeyList) \<Rightarrow> 'k GPG \<Rightarrow> world \<Rightarrow> string list
     \<Rightarrow> ('k KeyList \<times> error option) \<times> world" where
  "FindPublicKeys pc g w search = listKeys pc g w ''public'' search"

definition ListPrivateKeys ::
  "(string \<Rightarrow> 'k KeyList) \<Rightarrow> 'k GPG \<Rightarrow> world
     \<Rightarrow> ('k KeyList \<times> error option) \<times> 'k GPG \<times> world" where
  "ListPrivateKeys pc g w =
     (if privKeys g = nil then
        (case listKeys pc g w ''secret'' [] of
           ((kl, Some err), w') \<Rightarrow> ((nil, Some err), g, w')
         | ((kl, None), w') \<Rightarrow> ((kl, None), g\<lparr>privKeys := kl\<rparr>, w'))
      else ((privKeys g, None), g, w))"

definition FindPrivateKeys ::
  "(string \<Rightarrow> 'k KeyList) \<Rightarrow> 'k GPG \<Rightarrow> world \<Rightarrow> string list
     \<Rightarrow> ('k KeyList \<times> error option) \<times> world" where
  "FindPrivateKeys pc g w search = listKeys pc g w ''secret'' search"

subsection \<open>Encrypt, decrypt, export, import\<close>

definition Encrypt :: "'k GPG \<Rightarrow> world \<Rightarrow> string \<Rightarrow> string \<Rightarrow> string list \<Rightarrow> error option \<times> world" where
  "Encrypt g w path content recipients =
     (case dirFaults w path of
        Some err \<Rightarrow>
          (Some (Wrapped (''failed to create dir '' @ [CHR 0x27] @ path @ [CHR 0x27]) err), w)
      | None \<Rightarrow>
          (let args0 = args g @ [''--encrypt'', ''--output'', path];
               args1 = (if alwaysTrust g then args0 @ [''--trust-model=always''] else args0);
               args2 = fold (\<lambda>r a. a @ [''--recipient'', r]) recipients args1;
               cmd = (CommandContext w (binary g) args2)\<lparr>Stdin := content\<rparr>
           in Run cmd w))"

definition Decrypt :: "'k GPG \<Rightarrow> world \<Rightarrow> string \<Rightarrow> (string \<times> error option) \<times> world" where
  "Decrypt g w path =
     (let args0 = args g @ [''--decrypt'', path];
          cmd = CommandContext w (binary g) args0;
          (r, w') = Output cmd w
      in ((captured r, failure r), w'))"

definition ExportPublicKey :: "'k GPG \<Rightarrow> world \<Rightarrow> string \<Rightarrow> string \<Rightarrow> error option \<times> world" where
  "ExportPublicKey g w ident filename =
     (let args0 = args g @ [''--armor'', ''--export'', ident];
          cmd = CommandContext w (binary g) args0;
          (r, w') = Output cmd w
      in case failure r of
           Some err \<Rightarrow>
             (Some (Wrapped (''failed to run command '' @ [CHR 0x27] @ fmtCmd cmd @ [CHR 0x27]) err), w')
         | None \<Rightarrow>
             if length (captured r) < 1 then (Some (Errorf ''Key not found''), w')
             else WriteFile w' filename (captured r) fileMode)"

definition ImportPublicKey :: "'k GPG \<Rightarrow> world \<Rightarrow> string \<Rightarrow> error option \<times> 'k GPG \<times> world" where
  "ImportPublicKey g w filename =
     (case ReadFile w filename of
        Inl err \<Rightarrow>
          (Some (Wrapped (''failed to read file '' @ [CHR 0x27] @ filename @ [CHR 0x27]) err), g, w)
      | Inr buf \<Rightarrow>
          (let args0 = args g @ [''--import''];
               cmd = (CommandContext w (binary g) args0)\<lparr>Stdin := buf\<rparr>;
               (e, w') = Run cmd w
           in case e of
                Some err \<Rightarrow>
                  (Some (Wrapped (''failed to run command: '' @ [CHR 0x27] @ fmtCmd cmd @ [CHR 0x27]) err),
                   g, w')
              | None \<Rightarrow> (None, g\<lparr>privKeys := nil, pubKeys := nil\<rparr>, w')))"

subsection \<open>Reading the packet dump line by line\<close>

text \<open>
  \<open>bufio.Scanner\<close> with the default split function \<open>ScanLines\<close> and the default buffer.
  A token is the text up to the next newline, or the non-empty rest of the input, without
  one trailing carriage return. The buffer holds at most \<open>MaxScanTokenSize\<close> bytes, so
  a line of that many bytes or more makes \<open>Scan\<close> fail with \<open>ErrTooLong\<close>:
  \<open>Scan\<close> returns false and the scanner yields nothing more. \<open>scanTokens\<close> is the
  sequence of texts that the loop \<open>for scanner.Scan() { ... scanner.Text() ... }\<close> sees.
\<close>

definition MaxScanTokenSize :: nat where
  "MaxScanTokenSize = 64 * 1024"

definition newline :: char where
  "newline = CHR 0x0A"

definition dropCR :: "string \<Rightarrow> string" where
  "dropCR tok = (if tok \<noteq> [] \<and> last tok = CHR 0x0D then butlast tok else tok)"

function scanTokens :: "string \<Rightarrow> string list" where
  "scanTokens dat =
     (if dat = [] then []
      else if MaxScanTokenSize \<le> length (takeWhile (\<lambda>c. c \<noteq> newline) dat) then []
      else dropCR (takeWhile (\<lambda>c. c \<noteq> newline) dat)
             # scanTokens (drop 1 (dropWhile (\<lambda>c. c \<noteq> newline) dat)))"
  by pat_completeness auto
termination
proof (relation "measure length")
  show "wf (measure length)" by simp
next
  fix dat :: string
  assume "dat \<noteq> []"
  then have "0 < length dat" by simp
  moreover have "length (dropWhile (\<lambda>c. c \<noteq> newline) dat) \<le> length dat"
    by (rule length_dropWhile_le)
  ultimately have "length (dropWhile (\<lambda>c. c \<noteq> newline) dat) - 1 < length dat"
    by arith
  then show "(drop 1 (dropWhile (\<lambda>c. c \<noteq> newline) dat), dat) \<in> measure length"
    by simp
qed

declare scanTokens.simps [simp del]

text \<open>
  \<open>strings.TrimSpace\<close> removes the white-space runes at both ends, as
  \<open>unicode.IsSpace\<close> defines them; strings are byte sequences, so each rune is listed by
  its UTF-8 encoding: tab, line feed, vertical tab, form feed, carriage return, space,
  U+0085, U+00A0, U+1680, U+2000 to U+200A, U+2028, U+2029, U+202F, U+205F and U+3000.
  A byte sequence that is not the encoding of one of them decodes to another rune (or to
  the error rune) and stops the trimming.
\<close>

definition spaceRunes :: "string list" where
  "spaceRunes =
     [[CHR 0x09], [CHR 0x0A], [CHR 0x0B], [CHR 0x0C], [CHR 0x0D], [CHR 0x20],
      [CHR 0xC2, CHR 0x85], [CHR 0xC2, CHR 0xA0],
      [CHR 0xE1, CHR 0x9A, CHR 0x80],
      [CHR 0xE2, CHR 0x80, CHR 0x80], [CHR 0xE2, CHR 0x80, CHR 0x81],
      [CHR 0xE2, CHR 0x80, CHR 0x82], [CHR 0xE2, CHR 0x80, CHR 0x83],
      [CHR 0xE2, CHR 0x80, CHR 0x84], [CHR 0xE2, CHR 0x80, CHR 0x85],
      [CHR 0xE2, CHR 0x80, CHR 0x86], [CHR 0xE2, CHR 0x80, CHR 0x87],
      [CHR 0xE2, CHR 0x80, CHR 0x88], [CHR 0xE2, CHR 0x80, CHR 0x89],
      [CHR 0xE2, CHR 0x80, CHR 0x8A],
      [CHR 0xE2, CHR 0x80, CHR 0xA8], [CHR 0xE2, CHR 0x80, CHR 0xA9],
      [CHR 0xE2, CHR 0x80, CHR 0xAF],
      [CHR 0xE2, CHR 0x81, CHR 0x9F],
      [CHR 0xE3, CHR 0x80, CHR 0x80]]"

text \<open>\<open>trimHead ps s\<close> removes from the head of \<open>s\<close> every leading occurrence of a
  sequence of \<open>ps\<close> (each of one byte at least).\<close>

fun trimHead :: "string list \<Rightarrow> string \<Rightarrow> string" where
  "trimHead ps [] = []"
| "trimHead ps (c # cs) =
     (case List.find (\<lambda>p. prefix p (c # cs)) ps of
        None \<Rightarrow> c # cs
      | Some p \<Rightarrow> trimHead ps (drop (length p - 1) cs))"

definition TrimLeft :: "string \<Rightarrow> string" where
  "TrimLeft s = trimHead spaceRunes s"

definition TrimRight :: "string \<Rightarrow> string" where
  "TrimRight s = rev (trimHead (map rev spaceRunes) (rev s))"

definition TrimSpace :: "string \<Rightarrow> string" where
  "TrimSpace s = TrimRight (TrimLeft s)"

subsection \<open>Recipients of an encrypted file\<close>

text \<open>
  \<open>splitPacket\<close> is defined in another file of the package; it is the parameter \<open>sp\<close>
  of \<open>GetRecipients\<close>: the function from a line to the map of its fields. \<open>collect\<close>
  is the body of the scanning loop, run over the scanner's tokens with the slice
  \<open>recp\<close> as accumulator.
\<close>

definition marker :: string where
  "marker = '':pubkey enc packet:''"

fun collect :: "(string \<Rightarrow> (string \<rightharpoonup> string)) \<Rightarrow> string list \<Rightarrow> string list \<Rightarrow> string list" where
  "collect sp [] recp = recp"
| "collect sp (t # ts) recp =
     (let line = TrimSpace t in
      if \<not> prefix marker line then collect sp ts recp
      else (case sp line ''keyid'' of
              Some keyid \<Rightarrow> collect sp ts (recp @ [keyid])
            | None \<Rightarrow> collect sp ts recp))"

definition GetRecipients ::
  "(string \<Rightarrow> (string \<rightharpoonup> string)) \<Rightarrow> 'k GPG \<Rightarrow> world \<Rightarrow> string
     \<Rightarrow> (string list \<times> error option) \<times> world" where
  "GetRecipients sp g w file =
     (let w0 = Setenv w ''LANGUAGE'' ''C'';
          recp = [];
          args0 = [''--batch'', ''--list-only'', ''--list-packets'', ''--no-default-keyring'',
                   ''--secret-keyring'', ''/dev/null'', file];
          cmd = CommandContext w0 (binary g) args0;
          (r, w') = CombinedOutput cmd w0
      in case failure r of
           Some err \<Rightarrow> (([], Some err), w')
         | None \<Rightarrow> ((collect sp (scanTokens (captured r)) recp, None), w'))"

text \<open>
  Modelled from the spec: \<open>splitPacket\<close>, the packet-line splitter, which the source
  files at hand call but do not define. The spec: the line is a tag followed by
  space-separated tokens; every token containing \<open>=\<close> gives a field, its name before
  the \<open>=\<close> and its value after it; tokens without \<open>=\<close> are ignored; nothing fails.
\<close>

fun splitOn :: "char \<Rightarrow> string \<Rightarrow> string list" where
  "splitOn sep [] = [[]]"
| "splitOn sep (c # cs) =
     (if c = sep then [] # splitOn sep cs
      else (case splitOn sep cs of
              [] \<Rightarrow> [[c]]
            | t # ts \<Rightarrow> (c # t) # ts))"

definition addField :: "string \<Rightarrow> (string \<rightharpoonup> string) \<Rightarrow> (string \<rightharpoonup> string)" where
  "addField tok m =
     (if CHR ''='' \<in> set tok
      then m(takeWhile (\<lambda>c. c \<noteq> CHR ''='') tok \<mapsto> drop 1 (dropWhile (\<lambda>c. c \<noteq> CHR ''='') tok))
      else m)"

definition splitPacket :: "string \<Rightarrow> (string \<rightharpoonup> string)" where
  "splitPacket line = fold addField (splitOn CHR '' '' line) Map.empty"

text \<open>
  The recipients as the specification describes them: the lines of the dump, trimmed,
  those that start with the marker, and of these the \<open>keyid\<close> field where there is one.
  \<open>splitLines\<close> cuts a text at its newlines; a text that ends with a newline has no
  further, empty line after it.
\<close>

function splitLines :: "string \<Rightarrow> string list" where
  "splitLines dat =
     (if dat = [] then []
      else takeWhile (\<lambda>c. c \<noteq> newline) dat
             # splitLines (drop 1 (dropWhile (\<lambda>c. c \<noteq> newline) dat)))"
  by pat_completeness auto
termination
proof (relation "measure length")
  show "wf (measure length)" by simp
next
  fix dat :: string
  assume "dat \<noteq> []"
  then have "0 < length dat" by simp
  moreover have "length (dropWhile (\<lambda>c. c \<noteq> newline) dat) \<le> length dat"
    by (rule length_dropWhile_le)
  ultimately have "length (dropWhile (\<lambda>c. c \<noteq> newline) dat) - 1 < length dat"
    by arith
  then show "(drop 1 (dropWhile (\<lambda>c. c \<noteq> newline) dat), dat) \<in> measure length"
    by simp
qed

declare splitLines.simps [simp del]

definition recipientsOf :: "(string \<Rightarrow> (string \<rightharpoonup> string)) \<Rightarrow> string list \<Rightarrow> string list" where
  "recipientsOf sp ls =
     List.map_filter (\<lambda>line. sp line ''keyid'') (filter (prefix marker) (map TrimSpace ls))"

subsection \<open>The patterns for user identities\<close>

text \<open>
  The two regular expressions of the source, \<open>reUIDComment\<close> and \<open>reUID\<close>, are
  sequences of four kinds of items: one character of a class, one or more characters of
  a class (greedy), and the start and the end of a capture group (the groups are not
  nested). \<open>\s\<close> is the class of tab, line feed, form feed, carriage return and space.
  Go matches rune by rune; the bytes of a multi-byte rune belong to each of the negated
  classes used here, and the other classes and the literals are single ASCII bytes, so
  matching byte by byte finds the same matches.
\<close>

datatype cls = Lit char | NoneOf "char list" | Space

datatype item = One cls | Plus cls | Open | Close

fun inClass :: "cls \<Rightarrow> char \<Rightarrow> bool" where
  "inClass (Lit a) x = (x = a)"
| "inClass (NoneOf as) x = (x \<notin> set as)"
| "inClass Space x = (x \<in> set [CHR 0x09, CHR 0x0A, CHR 0x0C, CHR 0x0D, CHR 0x20])"

definition reUIDComment :: "item list" where
  "reUIDComment =
     [Open, Plus (NoneOf ''(<''), Close, Plus Space,
      Open, One (Lit CHR ''(''), Plus (NoneOf '')''), One (Lit CHR '')''), Close, Plus Space,
      One (Lit CHR ''<''), Open, Plus (NoneOf ''>''), Close, One (Lit CHR ''>'')]"

definition reUID :: "item list" where
  "reUID =
     [Open, Plus (NoneOf ''(<''), Close, Plus Space,
      One (Lit CHR ''<''), Open, Plus (NoneOf ''>''), Close, One (Lit CHR ''>'')]"

text \<open>
  \<open>matchAt re s caps cur\<close> matches \<open>re\<close> at the head of \<open>s\<close>, with the priorities of
  Go's leftmost-first matching: a greedy repetition first tries to take one more
  character and gives it back only when the rest does not match. \<open>caps\<close> holds the
  groups closed so far and \<open>cur\<close> the text of the open group.
\<close>

fun extend :: "char \<Rightarrow> string option \<Rightarrow> string option" where
  "extend x None = None"
| "extend x (Some grp) = Some (grp @ [x])"

fun matchAt :: "item list \<Rightarrow> string \<Rightarrow> string list \<Rightarrow> string option \<Rightarrow> string list option" where
  "matchAt [] s caps cur = Some caps"
| "matchAt (Open # re) s caps cur = matchAt re s caps (Some [])"
| "matchAt (Close # re) s caps cur =
     matchAt re s (caps @ [case cur of None \<Rightarrow> [] | Some grp \<Rightarrow> grp]) None"
| "matchAt (One c # re) [] caps cur = None"
| "matchAt (One c # re) (x # xs) caps cur =
     (if inClass c x then matchAt re xs caps (extend x cur) else None)"
| "matchAt (Plus c # re) [] caps cur = None"
| "matchAt (Plus c # re) (x # xs) caps cur =
     (if inClass c x then
        (case matchAt (Plus c # re) xs caps (extend x cur) of
           Some m \<Rightarrow> Some m
         | None \<Rightarrow> matchAt re xs caps (extend x cur))
      else None)"

text \<open>\<open>FindStringSubmatch\<close> returns the groups of the leftmost match (Go's \<open>m[1]\<close>,
  \<open>m[2]\<close>, ...), or \<open>None\<close> where Go returns \<open>nil\<close>.\<close>

fun FindStringSubmatch :: "item list \<Rightarrow> string \<Rightarrow> string list option" where
  "FindStringSubmatch re [] = matchAt re [] [] None"
| "FindStringSubmatch re (x # xs) =
     (case matchAt re (x # xs) [] None of
        Some m \<Rightarrow> Some m
      | None \<Rightarrow> FindStringSubmatch re xs)"

text \<open>
  Modelled from the spec: the parsing of a raw UID string into an identity, which is part
  of the colon-record parser and not in the source files at hand (only the two patterns
  are). The spec: the string is matched, in order, against "name (comment) <email>" and
  then "name <email>"; if neither matches, the whole string becomes the name and comment
  and email are empty. The second group of \<open>reUIDComment\<close> captures the parentheses
  with the comment; the comment of the identity is the text between them, as in the
  spec's example (comment \<open>work\<close> for \<open>Jane Doe (work) <jane@example.com>\<close>).
\<close>

record Identity =
  Name :: string
  Comment :: string
  Email :: string

definition between :: "string \<Rightarrow> string" where
  "between grp = butlast (drop 1 grp)"

definition parseUID :: "string \<Rightarrow> Identity" where
  "parseUID uid =
     (case FindStringSubmatch reUIDComment uid of
        Some [n, c, e] \<Rightarrow> \<lparr>Name = n, Comment = between c, Email = e\<rparr>
      | _ \<Rightarrow>
        (case FindStringSubmatch reUID uid of
           Some [n, e] \<Rightarrow> \<lparr>Name = n, Comment = [], Email = e\<rparr>
         | _ \<Rightarrow> \<lparr>Name = uid, Comment = [], Email = []\<rparr>))"

subsection \<open>A stub of the external program\<close>

text \<open>A world for concrete runs: the program answers from a fixed list, then fails;
  the file system is given. \<open>countBytes\<close> stands for a parser of listings in these
  runs, and \<open>longDump\<close>, \<open>twoRecipients\<close> and \<open>noRecipients\<close> are packet dumps.\<close>

definition stubWorld :: "proc_result list \<Rightarrow> (string \<rightharpoonup> string) \<Rightarrow> world" where
  "stubWorld rs fs =
     \<lparr>responses = (\<lambda>n. if n < length rs then rs ! n
                        else \<lparr>captured = [], failure = Some (ProcError ''no answer'')\<rparr>),
      trace = [], environ = Map.empty, files = fs, modes = Map.empty, faults = Map.empty,
      dirFaults = Map.empty, resolve = (\<lambda>name. name)\<rparr>"

definition answer :: "string \<Rightarrow> proc_result" where
  "answer out = \<lparr>captured = out, failure = None\<rparr>"

definition failing :: "string \<Rightarrow> proc_result" where
  "failing out = \<lparr>captured = out, failure = Some (ProcError ''exit status 2'')\<rparr>"

definition countBytes :: "string \<Rightarrow> nat KeyList" where
  "countBytes out = KeyList [length out]"

definition longDump :: string where
  "longDump = replicate 65536 CHR ''x'' @ newline # '':pubkey enc packet: keyid=AB''"

definition twoRecipients :: string where
  "twoRecipients =
     '':pubkey enc packet: version=3 algo=1 keyid=AAAA'' @ [CHR 0x0D, newline] @
     '':signature packet: algo=1 keyid=CCCC'' @ [newline] @
     ''   :pubkey enc packet: version=3 algo=1 keyid=BBBB'' @ [newline]"

definition noRecipients :: string where
  "noRecipients =
     '':signature packet: algo=1 keyid=CCCC'' @ [newline] @
     '':literal data packet:'' @ [newline]"

definition wrapper :: "nat GPG" where
  "wrapper = \<lparr>binary = ''gpg'', args = [''--quiet'', ''--yes''], pubKeys = nil, privKeys = nil,
              alwaysTrust = False\<rparr>"

section \<open>Auxiliary facts\<close>

lemma collect_acc: "collect sp ts recp = recp @ recipientsOf sp ts"
proof (induction ts arbitrary: recp)
  case Nil
  show ?case by (simp add: recipientsOf_def List.map_filter_simps)
next
  case (Cons t ts)
  show ?case
  proof (cases "prefix marker (TrimSpace t)")
    case False
    with Cons show ?thesis by (simp add: recipientsOf_def)
  next
    case True
    with Cons show ?thesis
      by (cases "sp (TrimSpace t) ''keyid''") (simp_all add: recipientsOf_def List.map_filter_simps)
  qed
qed

lemma scanTokens_splitLines:
  "scanTokens dat = map dropCR (takeWhile (\<lambda>l. length l < MaxScanTokenSize) (splitLines dat))"
proof (induction dat rule: splitLines.induct)
  case (1 dat)
  show ?case
  proof (cases "dat = []")
    case True
    then show ?thesis by (simp add: scanTokens.simps splitLines.simps)
  next
    case False
    with 1 show ?thesis
      by (subst scanTokens.simps, subst splitLines.simps) (simp add: not_less)
  qed
qed

lemma find_snoc:
  assumes "\<And>p. p \<in> set ps \<Longrightarrow> p \<noteq> s @ [x]"
  shows "List.find (\<lambda>p. prefix p (s @ [x])) ps = List.find (\<lambda>p. prefix p s) ps"
proof -
  have "\<And>p. p \<in> set ps \<Longrightarrow> prefix p (s @ [x]) = prefix p s"
    using assms by auto
  then show ?thesis by (induction ps) auto
qed

lemma trimHead_snoc:
  assumes single: "List.find (\<lambda>p. prefix p [x]) ps \<noteq> None"
    and ne: "\<And>p. p \<in> set ps \<Longrightarrow> p \<noteq> []"
    and last: "\<And>p s. p \<in> set ps \<Longrightarrow> s \<noteq> [] \<Longrightarrow> p \<noteq> s @ [x]"
  shows "trimHead ps (s @ [x]) = (if trimHead ps s = [] then [] else trimHead ps s @ [x])"
proof (induction s rule: length_induct)
  case (1 s)
  show ?case
  proof (cases s)
    case Nil
    obtain p where p: "List.find (\<lambda>p. prefix p [x]) ps = Some p"
      using single by auto
    then have "p \<in> set ps" "prefix p [x]"
      by (auto simp: find_Some_iff)
    with ne have "p = [x]" by (cases p) auto
    with p Nil show ?thesis by simp
  next
    case (Cons c cs)
    have eq: "List.find (\<lambda>p. prefix p ((c # cs) @ [x])) ps = List.find (\<lambda>p. prefix p (c # cs)) ps"
      by (rule find_snoc) (use last in blast)
    show ?thesis
    proof (cases "List.find (\<lambda>p. prefix p (c # cs)) ps")
      case None
      with eq Cons show ?thesis by simp
    next
      case (Some p)
      then have "prefix p (c # cs)" by (auto simp: find_Some_iff)
      then have le: "length p - 1 \<le> length cs"
        by (auto dest!: prefix_length_le)
      have "length (drop (length p - 1) cs) < length s"
        using Cons by simp
      with 1 have "trimHead ps (drop (length p - 1) cs @ [x]) =
          (if trimHead ps (drop (length p - 1) cs) = [] then []
           else trimHead ps (drop (length p - 1) cs) @ [x])"
        by blast
      with Some eq le Cons show ?thesis by simp
    qed
  qed
qed

lemma TrimLeft_snoc_CR:
  "TrimLeft (s @ [CHR 0x0D]) = (if TrimLeft s = [] then [] else TrimLeft s @ [CHR 0x0D])"
  unfolding TrimLeft_def
proof (rule trimHead_snoc)
  show "List.find (\<lambda>p. prefix p [CHR 0x0D]) spaceRunes \<noteq> None"
    by (simp add: spaceRunes_def)
next
  fix p assume "p \<in> set spaceRunes"
  then show "p \<noteq> []" by (auto simp: spaceRunes_def)
next
  fix p s :: string assume "p \<in> set spaceRunes" "s \<noteq> []"
  then show "p \<noteq> s @ [CHR 0x0D]"
    by (cases s rule: rev_cases) (auto simp: spaceRunes_def)
qed

lemma TrimRight_snoc_CR: "TrimRight (s @ [CHR 0x0D]) = TrimRight s"
  by (simp add: TrimRight_def spaceRunes_def)

lemma TrimRight_Nil: "TrimRight [] = []"
  by (simp add: TrimRight_def)

lemma TrimSpace_dropCR: "TrimSpace (dropCR s) = TrimSpace s"
proof (cases "s \<noteq> [] \<and> last s = CHR 0x0D")
  case False
  then show ?thesis by (auto simp: dropCR_def)
next
  case True
  then obtain t where s: "s = t @ [CHR 0x0D]"
    by (metis append_butlast_last_id)
  then have "dropCR s = t" by (simp add: dropCR_def)
  then show ?thesis
    by (simp add: s TrimSpace_def TrimLeft_snoc_CR TrimRight_snoc_CR TrimRight_Nil)
qed

lemma recipientsOf_dropCR: "recipientsOf sp (map dropCR ls) = recipientsOf sp ls"
  by (simp add: recipientsOf_def TrimSpace_dropCR comp_def)

lemma GetRecipients_ok:
  assumes "failure (nextResponse w) = None"
  shows "fst (GetRecipients sp g w file) =
         (recipientsOf sp (takeWhile (\<lambda>l. length l < MaxScanTokenSize)
                                     (splitLines (captured (nextResponse w)))), None)"
  using assms
  by (simp add: GetRecipients_def CombinedOutput_def invoke_def Setenv_def Let_def
      collect_acc scanTokens_splitLines recipientsOf_dropCR)

lemma GetRecipients_failed:
  assumes "failure (nextResponse w) = Some err"
  shows "fst (GetRecipients sp g w file) = ([], Some err)"
  using assms
  by (simp add: GetRecipients_def CombinedOutput_def invoke_def Setenv_def Let_def)

lemma takeWhile_all: "\<forall>x\<in>set xs. P x \<Longrightarrow> takeWhile P xs = xs"
  by (induction xs) auto

lemma recipientsOf_none:
  "\<forall>l\<in>set ls. \<not> prefix marker (TrimSpace l) \<Longrightarrow> recipientsOf sp ls = []"
  by (induction ls) (auto simp: recipientsOf_def List.map_filter_simps)

lemma matchAt_groups:
  "matchAt re s caps cur = Some m \<Longrightarrow>
   length m = length caps + length (filter (\<lambda>i. i = Close) re)"
  by (induction re s caps cur arbitrary: m rule: matchAt.induct)
     (auto split: if_splits option.splits)

lemma FindStringSubmatch_groups:
  "FindStringSubmatch re s = Some m \<Longrightarrow> length m = length (filter (\<lambda>i. i = Close) re)"
  by (induction s) (auto split: option.splits dest: matchAt_groups)

lemma length3: "length m = 3 \<Longrightarrow> \<exists>a b c. m = [a, b, c]"
  by (cases m; cases "tl m"; cases "tl (tl m)") auto

lemma length2: "length m = 2 \<Longrightarrow> \<exists>a b. m = [a, b]"
  by (cases m; cases "tl m") auto

lemma reUIDComment_groups:
  "FindStringSubmatch reUIDComment uid = Some m \<Longrightarrow> \<exists>n c e. m = [n, c, e]"
  by (rule length3) (simp add: FindStringSubmatch_groups reUIDComment_def)

lemma reUID_groups:
  "FindStringSubmatch reUID uid = Some m \<Longrightarrow> \<exists>n e. m = [n, e]"
  by (rule length2) (simp add: FindStringSubmatch_groups reUID_def)


lemma takeWhile_replicate_stop:
  "P x \<Longrightarrow> \<not> P y \<Longrightarrow> takeWhile P (replicate n x @ y # ys) = replicate n x"
  by (induction n) auto

lemma dropWhile_replicate_stop:
  "P x \<Longrightarrow> \<not> P y \<Longrightarrow> dropWhile P (replicate n x @ y # ys) = y # ys"
  by (induction n) auto

lemma trimHead_id:
  assumes "\<And>p. p \<in> set ps \<Longrightarrow> p \<noteq> [] \<and> hd p \<notin> set s"
  shows "trimHead ps s = s"
proof (cases s)
  case Nil
  then show ?thesis by simp
next
  case (Cons c cs)
  have "\<And>p. p \<in> set ps \<Longrightarrow> \<not> prefix p (c # cs)"
  proof
    fix p assume "p \<in> set ps" "prefix p (c # cs)"
    with assms[of p] Cons show False by (cases p) auto
  qed
  then have "List.find (\<lambda>p. prefix p (c # cs)) ps = None"
    by (simp add: find_None_iff)
  with Cons show ?thesis by simp
qed

lemma TrimSpace_xs: "TrimSpace (replicate n CHR ''x'') = replicate n CHR ''x''"
proof -
  have l: "TrimLeft (replicate n CHR ''x'') = replicate n CHR ''x''"
    unfolding TrimLeft_def by (rule trimHead_id) (auto simp: spaceRunes_def)
  have "trimHead (map rev spaceRunes) (replicate n CHR ''x'') = replicate n CHR ''x''"
    by (rule trimHead_id) (auto simp: spaceRunes_def)
  then have "TrimRight (replicate n CHR ''x'') = replicate n CHR ''x''"
    by (simp add: TrimRight_def)
  with l show ?thesis by (simp add: TrimSpace_def)
qed

lemma no_marker_xs: "\<not> prefix marker (replicate n CHR ''x'')"
  by (cases n) (simp_all add: marker_def)

lemma scanTokens_longDump: "scanTokens longDump = []"
proof -
  have "takeWhile (\<lambda>c. c \<noteq> newline) longDump = replicate 65536 CHR ''x''"
    unfolding longDump_def by (rule takeWhile_replicate_stop) (simp_all add: newline_def)
  then show ?thesis
    by (subst scanTokens.simps) (simp add: MaxScanTokenSize_def)
qed

lemma splitLines_longDump:
  "splitLines longDump = [replicate 65536 CHR ''x'', '':pubkey enc packet: keyid=AB'']"
proof -
  have t: "takeWhile (\<lambda>c. c \<noteq> newline) longDump = replicate 65536 CHR ''x''"
    unfolding longDump_def by (rule takeWhile_replicate_stop) (simp_all add: newline_def)
  have d: "dropWhile (\<lambda>c. c \<noteq> newline) longDump = newline # '':pubkey enc packet: keyid=AB''"
    unfolding longDump_def by (rule dropWhile_replicate_stop) (simp_all add: newline_def)
  have ne: "longDump \<noteq> []" by (simp add: longDump_def)
  have rest: "splitLines '':pubkey enc packet: keyid=AB'' = ['':pubkey enc packet: keyid=AB'']"
    by (simp add: splitLines.simps newline_def)
  show ?thesis
    by (subst splitLines.simps) (simp add: t d ne rest)
qed

lemma TrimSpace_marker_line:
  "TrimSpace '':pubkey enc packet: keyid=AB'' = '':pubkey enc packet: keyid=AB''"
  by (simp add: TrimSpace_def TrimLeft_def TrimRight_def spaceRunes_def)

lemma splitPacket_marker_line:
  "splitPacket '':pubkey enc packet: keyid=AB'' ''keyid'' = Some ''AB''"
  by (simp add: splitPacket_def addField_def)

text \<open>
  What \<open>GetRecipients\<close> computes when the inspection succeeds: the \<open>keyid\<close> values
  of the marker lines among the lines that the scanner delivers, which are the lines
  before the first line of 65536 bytes or more. On a dump whose lines are all shorter the
  scanner delivers every line, and the result is the one the specification describes.
\<close>

lemma GetRecipients_scanned_lines:
  assumes "failure (nextResponse w) = None"
  shows "fst (GetRecipients sp g w file) =
           (recipientsOf sp (takeWhile (\<lambda>l. length l < MaxScanTokenSize)
                                       (splitLines (captured (nextResponse w)))), None)
       \<and> ((\<forall>l \<in> set (splitLines (captured (nextResponse w))). length l < MaxScanTokenSize) \<longrightarrow>
            fst (GetRecipients sp g w file) =
              (recipientsOf sp (splitLines (captured (nextResponse w))), None))
       \<and> ((\<forall>l \<in> set (splitLines (captured (nextResponse w))). \<not> prefix marker (TrimSpace l)) \<longrightarrow>
            fst (GetRecipients sp g w file) = ([], None))"
proof (intro conjI impI)
  show main: "fst (GetRecipients sp g w file) =
           (recipientsOf sp (takeWhile (\<lambda>l. length l < MaxScanTokenSize)
                                       (splitLines (captured (nextResponse w)))), None)"
    using assms by (rule GetRecipients_ok)
  {
    assume "\<forall>l \<in> set (splitLines (captured (nextResponse w))). length l < MaxScanTokenSize"
    then show "fst (GetRecipients sp g w file) =
                 (recipientsOf sp (splitLines (captured (nextResponse w))), None)"
      by (simp add: main takeWhile_all)
  }
  {
    assume "\<forall>l \<in> set (splitLines (captured (nextResponse w))). \<not> prefix marker (TrimSpace l)"
    then have "\<forall>l \<in> set (takeWhile (\<lambda>l. length l < MaxScanTokenSize)
                 (splitLines (captured (nextResponse w)))). \<not> prefix marker (TrimSpace l)"
      by (blast dest: set_takeWhileD)
    then show "fst (GetRecipients sp g w file) = ([], None)"
      by (simp add: main recipientsOf_none)
  }
qed

lemma GetRecipients_scanned_lines_example:
  "failure (nextResponse (stubWorld [answer twoRecipients] Map.empty)) = None
   \<and> list_all (\<lambda>l. length l < MaxScanTokenSize)
        (splitLines (captured (nextResponse (stubWorld [answer twoRecipients] Map.empty))))
   \<and> fst (GetRecipients splitPacket wrapper (stubWorld [answer twoRecipients] Map.empty) ''file.gpg'')
       = ([''AAAA'', ''BBBB''], None)
   \<and> failure (nextResponse (stubWorld [answer noRecipients] Map.empty)) = None
   \<and> list_all (\<lambda>l. \<not> prefix marker (TrimSpace l))
        (splitLines (captured (nextResponse (stubWorld [answer noRecipients] Map.empty))))
   \<and> fst (GetRecipients splitPacket wrapper (stubWorld [answer noRecipients] Map.empty) ''file.gpg'')
       = ([], None)"
proof -
  have ok: "failure (nextResponse (stubWorld [answer twoRecipients] Map.empty)) = None"
    by (simp add: stubWorld_def answer_def)
  have out: "captured (nextResponse (stubWorld [answer twoRecipients] Map.empty)) = twoRecipients"
    by (simp add: stubWorld_def answer_def)
  have ls: "splitLines twoRecipients =
      ['':pubkey enc packet: version=3 algo=1 keyid=AAAA'' @ [CHR 0x0D],
       '':signature packet: algo=1 keyid=CCCC'',
       ''   :pubkey enc packet: version=3 algo=1 keyid=BBBB'']"
    by (simp add: twoRecipients_def splitLines.simps newline_def)
  have short: "\<forall>l \<in> set (splitLines (captured (nextResponse
                  (stubWorld [answer twoRecipients] Map.empty)))). length l < MaxScanTokenSize"
    by (simp add: out ls MaxScanTokenSize_def)
  have rs: "recipientsOf splitPacket (splitLines twoRecipients) = [''AAAA'', ''BBBB'']"
    by (simp add: ls recipientsOf_def marker_def TrimSpace_def TrimLeft_def
        TrimRight_def spaceRunes_def splitPacket_def addField_def List.map_filter_simps)
  have ok0: "failure (nextResponse (stubWorld [answer noRecipients] Map.empty)) = None"
    by (simp add: stubWorld_def answer_def)
  have out0: "captured (nextResponse (stubWorld [answer noRecipients] Map.empty)) = noRecipients"
    by (simp add: stubWorld_def answer_def)
  have ls0: "splitLines noRecipients =
      ['':signature packet: algo=1 keyid=CCCC'', '':literal data packet:'']"
    by (simp add: noRecipients_def splitLines.simps newline_def)
  have none: "\<forall>l \<in> set (splitLines (captured (nextResponse
                  (stubWorld [answer noRecipients] Map.empty)))). \<not> prefix marker (TrimSpace l)"
    by (simp add: out0 ls0 marker_def TrimSpace_def TrimLeft_def TrimRight_def spaceRunes_def)
  have r1: "fst (GetRecipients splitPacket wrapper (stubWorld [answer twoRecipients] Map.empty) ''file.gpg'')
      = (recipientsOf splitPacket (splitLines (captured (nextResponse
           (stubWorld [answer twoRecipients] Map.empty)))), None)"
    using GetRecipients_scanned_lines[OF ok, of splitPacket wrapper "''file.gpg''"] short by blast
  have r0: "fst (GetRecipients splitPacket wrapper (stubWorld [answer noRecipients] Map.empty) ''file.gpg'')
      = ([], None)"
    using GetRecipients_scanned_lines[OF ok0, of splitPacket wrapper "''file.gpg''"] none by blast
  from ok ok0 short none show ?thesis
    by (simp add: r1 r0 out rs list_all_iff)
qed

section \<open>The claims\<close>

text \<open>
  C1. The claim is that \<open>GetRecipients\<close>, whenever the inspection succeeds, returns the
  \<open>keyid\<close> values of all the lines whose trimmed text starts with the marker. The code
  does not: \<open>longDump\<close> is a dump whose first line has 65536 bytes and whose second
  line is a marker line with \<open>keyid=AB\<close>. The inspection succeeds and the lines of
  the dump give the recipient \<open>AB\<close>, but \<open>Scan\<close> fails on the long line, the loop
  ends without a look at \<open>scanner.Err()\<close>, and \<open>GetRecipients\<close> returns the empty
  list with no error.
\<close>

theorem GetRecipients_drops_after_long_line:
  "failure (nextResponse (stubWorld [answer longDump] Map.empty)) = None
   \<and> fst (GetRecipients splitPacket wrapper (stubWorld [answer longDump] Map.empty) ''file.gpg'')
       = ([], None)
   \<and> recipientsOf splitPacket (splitLines longDump) = [''AB'']
   \<and> fst (GetRecipients splitPacket wrapper (stubWorld [answer longDump] Map.empty) ''file.gpg'')
       \<noteq> (recipientsOf splitPacket (splitLines longDump), None)"
proof -
  have got: "fst (GetRecipients splitPacket wrapper (stubWorld [answer longDump] Map.empty) ''file.gpg'')
       = ([], None)"
    by (simp add: GetRecipients_def CombinedOutput_def invoke_def Setenv_def Let_def
        stubWorld_def answer_def scanTokens_longDump)
  have want: "recipientsOf splitPacket (splitLines longDump) = [''AB'']"
    by (simp add: splitLines_longDump recipientsOf_def TrimSpace_xs no_marker_xs
        TrimSpace_marker_line splitPacket_marker_line List.map_filter_simps)
       (simp add: marker_def)
  have ok: "failure (nextResponse (stubWorld [answer longDump] Map.empty)) = None"
    by (simp add: stubWorld_def answer_def)
  from got want ok show ?thesis by simp
qed


text \<open>
  C3. When a listing of secret keys fails and the captured output contains the message
  "secret key not available", \<open>listKeys\<close> returns an empty list of keys and no error.
\<close>

theorem listKeys_no_secret_key:
  assumes "failure (nextResponse w) = Some err"
    and "Contains (captured (nextResponse w)) ''secret key not available''"
  shows "fst (listKeys pc g w ''secret'' search) = (KeyList [], None)"
  using assms by (simp add: listKeys_def Output_def invoke_def Let_def)

theorem listKeys_no_secret_key_witness:
  "failure (nextResponse (stubWorld [failing ''gpg: secret key not available''] Map.empty))
     = Some (ProcError ''exit status 2'')
   \<and> Contains (captured (nextResponse (stubWorld [failing ''gpg: secret key not available''] Map.empty)))
        ''secret key not available''
   \<and> fst (listKeys countBytes wrapper
            (stubWorld [failing ''gpg: secret key not available''] Map.empty) ''secret'' [])
       = (KeyList [], None)"
proof -
  have f: "failure (nextResponse (stubWorld [failing ''gpg: secret key not available''] Map.empty))
     = Some (ProcError ''exit status 2'')"
    by (simp add: stubWorld_def failing_def)
  have c: "Contains (captured (nextResponse (stubWorld [failing ''gpg: secret key not available''] Map.empty)))
        ''secret key not available''"
    by (simp add: stubWorld_def failing_def)
  from listKeys_no_secret_key[OF f c, of countBytes wrapper "[]"] f c show ?thesis by simp
qed

text \<open>
  C10. The empty-inventory case depends on the captured output only, not on the type of
  the listing: any failed listing whose output contains "secret key not available"
  gives an empty list and no error; so does a failed listing of the public keys, through
  \<open>ListPublicKeys\<close> too.
\<close>

theorem listKeys_sniff_any_type:
  assumes "failure (nextResponse w) = Some err"
    and "Contains (captured (nextResponse w)) ''secret key not available''"
  shows "fst (listKeys pc g w typ search) = (KeyList [], None)
       \<and> fst (FindPublicKeys pc g w search) = (KeyList [], None)
       \<and> (pubKeys g = nil \<longrightarrow> fst (ListPublicKeys pc g w) = (KeyList [], None))"
  using assms
  by (simp add: ListPublicKeys_def FindPublicKeys_def listKeys_def Output_def invoke_def Let_def)

theorem listKeys_sniff_any_type_witness:
  "failure (nextResponse (stubWorld [failing ''gpg: secret key not available''] Map.empty))
     = Some (ProcError ''exit status 2'')
   \<and> Contains (captured (nextResponse (stubWorld [failing ''gpg: secret key not available''] Map.empty)))
        ''secret key not available''
   \<and> pubKeys wrapper = nil
   \<and> fst (listKeys countBytes wrapper
            (stubWorld [failing ''gpg: secret key not available''] Map.empty) ''public'' [])
       = (KeyList [], None)
   \<and> fst (ListPublicKeys countBytes wrapper
            (stubWorld [failing ''gpg: secret key not available''] Map.empty))
       = (KeyList [], None)"
proof -
  have f: "failure (nextResponse (stubWorld [failing ''gpg: secret key not available''] Map.empty))
     = Some (ProcError ''exit status 2'')"
    by (simp add: stubWorld_def failing_def)
  have c: "Contains (captured (nextResponse (stubWorld [failing ''gpg: secret key not available''] Map.empty)))
        ''secret key not available''"
    by (simp add: stubWorld_def failing_def)
  have n: "pubKeys wrapper = nil" by (simp add: wrapper_def)
  from listKeys_sniff_any_type[OF f c, of countBytes wrapper "''public''" "[]"] f c n
  show ?thesis by simp
qed

text \<open>
  C2. After a successful \<open>ImportPublicKey\<close> both caches are \<open>nil\<close>, so the next
  \<open>ListPublicKeys\<close> (and the next \<open>ListPrivateKeys\<close>) invokes the external program
  once more, with the listing arguments, and returns what the parser makes of the new
  output.
\<close>

theorem ImportPublicKey_clears_caches:
  assumes "ImportPublicKey g w filename = (None, g', w')"
  shows "pubKeys g' = nil \<and> privKeys g' = nil
       \<and> trace (snd (snd (ListPublicKeys pc g' w'))) =
           trace w' @ [(CaptureStdout, CommandContext w' (binary g')
              [''--with-colons'', ''--with-fingerprint'', ''--fixed-list-mode'', ''--list-public-keys''])]
       \<and> trace (snd (snd (ListPrivateKeys pc g' w'))) =
           trace w' @ [(CaptureStdout, CommandContext w' (binary g')
              [''--with-colons'', ''--with-fingerprint'', ''--fixed-list-mode'', ''--list-secret-keys''])]
       \<and> (failure (nextResponse w') = None \<longrightarrow>
            fst (ListPublicKeys pc g' w') = (pc (captured (nextResponse w')), None)
          \<and> fst (ListPrivateKeys pc g' w') = (pc (captured (nextResponse w')), None))"
proof -
  from assms have g': "g' = g\<lparr>privKeys := nil, pubKeys := nil\<rparr>"
    by (auto simp: ImportPublicKey_def Run_def invoke_def Let_def
        split: sum.splits option.splits prod.splits)
  show ?thesis
    by (simp add: g' ListPublicKeys_def ListPrivateKeys_def listKeys_def Output_def invoke_def
        Let_def split: option.splits)
qed

theorem ImportPublicKey_clears_caches_witness:
  "ImportPublicKey (wrapper\<lparr>pubKeys := KeyList [7], privKeys := KeyList [9]\<rparr>)
       (stubWorld [answer [], answer ''pub:u:4096''] [''key.asc'' \<mapsto> ''KEY''])
       ''key.asc''
     = (None, wrapper,
        (stubWorld [answer [], answer ''pub:u:4096''] [''key.asc'' \<mapsto> ''KEY''])
          \<lparr>trace := [(CaptureNone, \<lparr>Path = ''gpg'', Args = [''gpg'', ''--quiet'', ''--yes'', ''--import''],
                                   Stdin = ''KEY''\<rparr>)]\<rparr>)
   \<and> pubKeys wrapper = nil \<and> privKeys wrapper = nil
   \<and> fst (ListPublicKeys countBytes wrapper
           ((stubWorld [answer [], answer ''pub:u:4096''] [''key.asc'' \<mapsto> ''KEY''])
             \<lparr>trace := [(CaptureNone, \<lparr>Path = ''gpg'', Args = [''gpg'', ''--quiet'', ''--yes'', ''--import''],
                                   Stdin = ''KEY''\<rparr>)]\<rparr>))
       = (KeyList [10], None)"
proof -
  have imp: "ImportPublicKey (wrapper\<lparr>pubKeys := KeyList [7], privKeys := KeyList [9]\<rparr>)
       (stubWorld [answer [], answer ''pub:u:4096''] [''key.asc'' \<mapsto> ''KEY''])
       ''key.asc''
     = (None, wrapper,
        (stubWorld [answer [], answer ''pub:u:4096''] [''key.asc'' \<mapsto> ''KEY''])
          \<lparr>trace := [(CaptureNone, \<lparr>Path = ''gpg'', Args = [''gpg'', ''--quiet'', ''--yes'', ''--import''],
                                   Stdin = ''KEY''\<rparr>)]\<rparr>)"
    by (simp add: ImportPublicKey_def ReadFile_def Run_def invoke_def CommandContext_def
        stubWorld_def answer_def wrapper_def Let_def)
  have ok: "failure (nextResponse ((stubWorld [answer [], answer ''pub:u:4096''] [''key.asc'' \<mapsto> ''KEY''])
          \<lparr>trace := [(CaptureNone, \<lparr>Path = ''gpg'', Args = [''gpg'', ''--quiet'', ''--yes'', ''--import''],
                                   Stdin = ''KEY''\<rparr>)]\<rparr>)) = None"
    by (simp add: stubWorld_def answer_def)
  have out: "captured (nextResponse ((stubWorld [answer [], answer ''pub:u:4096''] [''key.asc'' \<mapsto> ''KEY''])
          \<lparr>trace := [(CaptureNone, \<lparr>Path = ''gpg'', Args = [''gpg'', ''--quiet'', ''--yes'', ''--import''],
                                   Stdin = ''KEY''\<rparr>)]\<rparr>)) = ''pub:u:4096''"
    by (simp add: stubWorld_def answer_def)
  from ImportPublicKey_clears_caches[OF imp, of countBytes] ok out imp
  show ?thesis by (simp add: countBytes_def)
qed




text \<open>
  C5. Parsing a raw UID string tries \<open>reUIDComment\<close> ("name (comment) <email>") first
  and \<open>reUID\<close> ("name <email>") second. A match of the first has exactly three groups
  and gives name, comment (the text between the parentheses of the second group) and
  email; when only the second matches, it has exactly two groups and gives name and
  email, with an empty comment; when neither matches, the whole string is the name and
  comment and email are empty. One of the three cases always applies, so parsing always
  gives an identity.
\<close>

theorem parseUID_cases:
  "(\<forall>m. FindStringSubmatch reUIDComment uid = Some m \<longrightarrow>
      (\<exists>n c e. m = [n, c, e] \<and> parseUID uid = \<lparr>Name = n, Comment = between c, Email = e\<rparr>))
   \<and> (\<forall>m. FindStringSubmatch reUIDComment uid = None \<and> FindStringSubmatch reUID uid = Some m \<longrightarrow>
      (\<exists>n e. m = [n, e] \<and> parseUID uid = \<lparr>Name = n, Comment = [], Email = e\<rparr>))
   \<and> (FindStringSubmatch reUIDComment uid = None \<and> FindStringSubmatch reUID uid = None \<longrightarrow>
      parseUID uid = \<lparr>Name = uid, Comment = [], Email = []\<rparr>)"
proof (intro conjI allI impI)
  fix m assume a: "FindStringSubmatch reUIDComment uid = Some m"
  then obtain n c e where "m = [n, c, e]"
    using reUIDComment_groups by blast
  with a show "\<exists>n c e. m = [n, c, e] \<and> parseUID uid = \<lparr>Name = n, Comment = between c, Email = e\<rparr>"
    by (simp add: parseUID_def)
next
  fix m assume a: "FindStringSubmatch reUIDComment uid = None \<and> FindStringSubmatch reUID uid = Some m"
  then obtain n e where "m = [n, e]"
    using reUID_groups by blast
  with a show "\<exists>n e. m = [n, e] \<and> parseUID uid = \<lparr>Name = n, Comment = [], Email = e\<rparr>"
    by (simp add: parseUID_def)
next
  assume "FindStringSubmatch reUIDComment uid = None \<and> FindStringSubmatch reUID uid = None"
  then show "parseUID uid = \<lparr>Name = uid, Comment = [], Email = []\<rparr>"
    by (simp add: parseUID_def)
qed

theorem parseUID_cases_witness:
  "FindStringSubmatch reUIDComment ''Jane Doe (work) <jane@example.com>''
     = Some [''Jane Doe'', ''(work)'', ''jane@example.com'']
   \<and> parseUID ''Jane Doe (work) <jane@example.com>''
     = \<lparr>Name = ''Jane Doe'', Comment = ''work'', Email = ''jane@example.com''\<rparr>
   \<and> FindStringSubmatch reUIDComment ''Jane Doe <jane@example.com>'' = None
   \<and> FindStringSubmatch reUID ''Jane Doe <jane@example.com>''
     = Some [''Jane Doe'', ''jane@example.com'']
   \<and> parseUID ''Jane Doe <jane@example.com>''
     = \<lparr>Name = ''Jane Doe'', Comment = [], Email = ''jane@example.com''\<rparr>
   \<and> FindStringSubmatch reUIDComment ''garbled-uid-no-brackets'' = None
   \<and> FindStringSubmatch reUID ''garbled-uid-no-brackets'' = None
   \<and> parseUID ''garbled-uid-no-brackets''
     = \<lparr>Name = ''garbled-uid-no-brackets'', Comment = [], Email = []\<rparr>"
proof -
  have m1: "FindStringSubmatch reUIDComment ''Jane Doe (work) <jane@example.com>''
     = Some [''Jane Doe'', ''(work)'', ''jane@example.com'']"
    by (simp add: reUIDComment_def)
  have m2: "FindStringSubmatch reUIDComment ''Jane Doe <jane@example.com>'' = None"
    by (simp add: reUIDComment_def)
  have m3: "FindStringSubmatch reUID ''Jane Doe <jane@example.com>''
     = Some [''Jane Doe'', ''jane@example.com'']"
    by (simp add: reUID_def)
  have m4: "FindStringSubmatch reUIDComment ''garbled-uid-no-brackets'' = None"
    by (simp add: reUIDComment_def)
  have m5: "FindStringSubmatch reUID ''garbled-uid-no-brackets'' = None"
    by (simp add: reUID_def)
  from parseUID_cases[of "''Jane Doe (work) <jane@example.com>''"]
       parseUID_cases[of "''Jane Doe <jane@example.com>''"]
       parseUID_cases[of "''garbled-uid-no-brackets''"]
       m1 m2 m3 m4 m5
  show ?thesis by (simp add: between_def)
qed

text \<open>
  C6. When the export invocation of \<open>ExportPublicKey\<close> succeeds with no output, the
  result is the error "Key not found" and no file is written; the file system changes
  only when the invocation succeeded with a non-empty output.
\<close>

theorem ExportPublicKey_empty_output:
  "(failure (nextResponse w) = None \<and> captured (nextResponse w) = [] \<longrightarrow>
      fst (ExportPublicKey g w ident filename) = Some (Errorf ''Key not found'')
      \<and> files (snd (ExportPublicKey g w ident filename)) = files w)
   \<and> (files (snd (ExportPublicKey g w ident filename)) \<noteq> files w \<longrightarrow>
      failure (nextResponse w) = None \<and> captured (nextResponse w) \<noteq> [])"
  by (auto simp: ExportPublicKey_def Output_def invoke_def Let_def WriteFile_def
      split: option.splits)

theorem ExportPublicKey_empty_output_witness:
  "failure (nextResponse (stubWorld [answer []] Map.empty)) = None
   \<and> captured (nextResponse (stubWorld [answer []] Map.empty)) = []
   \<and> fst (ExportPublicKey wrapper (stubWorld [answer []] Map.empty) ''0xDEADBEEF'' ''key.asc'')
       = Some (Errorf ''Key not found'')
   \<and> files (snd (ExportPublicKey wrapper (stubWorld [answer []] Map.empty) ''0xDEADBEEF'' ''key.asc''))
       = Map.empty
   \<and> files (snd (ExportPublicKey wrapper (stubWorld [answer ''KEY''] Map.empty) ''0xDEADBEEF'' ''key.asc''))
       \<noteq> files (stubWorld [answer ''KEY''] Map.empty)
   \<and> captured (nextResponse (stubWorld [answer ''KEY''] Map.empty)) \<noteq> []"
proof -
  have a: "failure (nextResponse (stubWorld [answer []] Map.empty)) = None
      \<and> captured (nextResponse (stubWorld [answer []] Map.empty)) = []"
    by (simp add: stubWorld_def answer_def)
  have f: "files (stubWorld [answer []] Map.empty) = Map.empty"
    by (simp add: stubWorld_def)
  have "files (snd (ExportPublicKey wrapper (stubWorld [answer ''KEY''] Map.empty) ''0xDEADBEEF'' ''key.asc''))
      = [''key.asc'' \<mapsto> ''KEY'']"
    by (simp add: ExportPublicKey_def Output_def invoke_def Let_def WriteFile_def
        stubWorld_def answer_def)
  then have b: "files (snd (ExportPublicKey wrapper (stubWorld [answer ''KEY''] Map.empty) ''0xDEADBEEF'' ''key.asc''))
       \<noteq> files (stubWorld [answer ''KEY''] Map.empty)"
    by (simp add: stubWorld_def)
  from ExportPublicKey_empty_output[of "stubWorld [answer []] Map.empty" wrapper "''0xDEADBEEF''" "''key.asc''"]
       ExportPublicKey_empty_output[of "stubWorld [answer ''KEY''] Map.empty" wrapper "''0xDEADBEEF''" "''key.asc''"]
       a b f
  show ?thesis by simp
qed

text \<open>
  C7. \<open>GetRecipients\<close> returns an error exactly when the inspection invocation failed,
  and then it returns that error with the empty list.
\<close>

theorem GetRecipients_error_iff:
  "(snd (fst (GetRecipients sp g w file)) \<noteq> None \<longleftrightarrow> failure (nextResponse w) \<noteq> None)
   \<and> (\<forall>err. failure (nextResponse w) = Some err \<longrightarrow>
        fst (GetRecipients sp g w file) = ([], Some err))"
proof (cases "failure (nextResponse w)")
  case None
  then show ?thesis by (simp add: GetRecipients_ok)
next
  case (Some err)
  then show ?thesis by (simp add: GetRecipients_failed)
qed

theorem GetRecipients_error_iff_witness:
  "failure (nextResponse (stubWorld [failing ''gpg: no valid OpenPGP data found.''] Map.empty))
     = Some (ProcError ''exit status 2'')
   \<and> fst (GetRecipients splitPacket wrapper
           (stubWorld [failing ''gpg: no valid OpenPGP data found.''] Map.empty) ''file.gpg'')
       = ([], Some (ProcError ''exit status 2''))
   \<and> failure (nextResponse (stubWorld [answer []] Map.empty)) = None
   \<and> snd (fst (GetRecipients splitPacket wrapper (stubWorld [answer []] Map.empty) ''file.gpg''))
       = None"
proof -
  have a: "failure (nextResponse (stubWorld [failing ''gpg: no valid OpenPGP data found.''] Map.empty))
     = Some (ProcError ''exit status 2'')"
    by (simp add: stubWorld_def failing_def)
  have b: "failure (nextResponse (stubWorld [answer []] Map.empty)) = None"
    by (simp add: stubWorld_def answer_def)
  from GetRecipients_error_iff[of splitPacket wrapper
         "stubWorld [failing ''gpg: no valid OpenPGP data found.''] Map.empty" "''file.gpg''"]
       GetRecipients_error_iff[of splitPacket wrapper "stubWorld [answer []] Map.empty" "''file.gpg''"]
       a b
  show ?thesis by simp
qed


text \<open>
  C8 (as amended). A failure of the external invocation always reaches the caller as an
  error, the listing whose output contains "secret key not available" excepted.
  \<open>ExportPublicKey\<close> and \<open>ImportPublicKey\<close> wrap the error of the invocation in a
  message that names the failed command; \<open>Decrypt\<close>, \<open>Encrypt\<close>, \<open>listKeys\<close> with the listing
  operations built on it, and \<open>GetRecipients\<close> return the error of the invocation
  itself, unchanged and without added context.
\<close>

theorem invocation_failure_surfaced:
  assumes "failure (nextResponse w) = Some err"
  shows "snd (fst (Decrypt g w path)) = Some err
       \<and> (dirFaults w path = None \<longrightarrow> fst (Encrypt g w path content recipients) = Some err)
       \<and> snd (fst (GetRecipients sp g w encrypted)) = Some err
       \<and> (\<not> Contains (captured (nextResponse w)) ''secret key not available'' \<longrightarrow>
            snd (fst (listKeys pc g w typ search)) = Some err
          \<and> (pubKeys g = nil \<longrightarrow> snd (fst (ListPublicKeys pc g w)) = Some err)
          \<and> (privKeys g = nil \<longrightarrow> snd (fst (ListPrivateKeys pc g w)) = Some err))
       \<and> fst (ExportPublicKey g w ident filename) =
           Some (Wrapped (''failed to run command '' @ [CHR 0x27]
                   @ fmtCmd (CommandContext w (binary g) (args g @ [''--armor'', ''--export'', ident]))
                   @ [CHR 0x27]) err)
       \<and> (\<forall>buf. ReadFile w src = Inr buf \<longrightarrow>
            fst (ImportPublicKey g w src) =
              Some (Wrapped (''failed to run command: '' @ [CHR 0x27]
                      @ fmtCmd ((CommandContext w (binary g) (args g @ [''--import'']))\<lparr>Stdin := buf\<rparr>)
                      @ [CHR 0x27]) err))"
proof (intro conjI allI impI)
  show "snd (fst (Decrypt g w path)) = Some err"
    using assms by (simp add: Decrypt_def Output_def invoke_def Let_def)
  show "fst (Encrypt g w path content recipients) = Some err" if "dirFaults w path = None"
    using assms that by (simp add: Encrypt_def Run_def invoke_def Let_def)
  show "snd (fst (GetRecipients sp g w encrypted)) = Some err"
    using assms by (simp add: GetRecipients_failed)
  show "fst (ExportPublicKey g w ident filename) =
           Some (Wrapped (''failed to run command '' @ [CHR 0x27]
                   @ fmtCmd (CommandContext w (binary g) (args g @ [''--armor'', ''--export'', ident]))
                   @ [CHR 0x27]) err)"
    using assms by (simp add: ExportPublicKey_def Output_def invoke_def Let_def)
next
  assume n: "\<not> Contains (captured (nextResponse w)) ''secret key not available''"
  show "snd (fst (listKeys pc g w typ search)) = Some err"
    using assms n by (simp add: listKeys_def Output_def invoke_def Let_def)
  {
    assume "pubKeys g = nil"
    then show "snd (fst (ListPublicKeys pc g w)) = Some err"
      using assms n by (simp add: ListPublicKeys_def listKeys_def Output_def invoke_def Let_def)
  }
  {
    assume "privKeys g = nil"
    then show "snd (fst (ListPrivateKeys pc g w)) = Some err"
      using assms n by (simp add: ListPrivateKeys_def listKeys_def Output_def invoke_def Let_def)
  }
next
  fix buf assume "ReadFile w src = Inr buf"
  then show "fst (ImportPublicKey g w src) =
              Some (Wrapped (''failed to run command: '' @ [CHR 0x27]
                      @ fmtCmd ((CommandContext w (binary g) (args g @ [''--import'']))\<lparr>Stdin := buf\<rparr>)
                      @ [CHR 0x27]) err)"
    using assms by (simp add: ImportPublicKey_def Run_def invoke_def Let_def)
qed

theorem invocation_failure_surfaced_witness:
  "failure (nextResponse (stubWorld [failing ''gpg: decryption failed''] [''key.asc'' \<mapsto> ''KEY'']))
     = Some (ProcError ''exit status 2'')
   \<and> \<not> Contains (captured (nextResponse (stubWorld [failing ''gpg: decryption failed'']
                                             [''key.asc'' \<mapsto> ''KEY''])))
          ''secret key not available''
   \<and> pubKeys wrapper = nil \<and> privKeys wrapper = nil
   \<and> ReadFile (stubWorld [failing ''gpg: decryption failed''] [''key.asc'' \<mapsto> ''KEY'']) ''key.asc''
       = Inr ''KEY''
   \<and> snd (fst (Decrypt wrapper (stubWorld [failing ''gpg: decryption failed''] [''key.asc'' \<mapsto> ''KEY''])
                ''secret.gpg''))
       = Some (ProcError ''exit status 2'')
   \<and> dirFaults (stubWorld [failing ''gpg: decryption failed''] [''key.asc'' \<mapsto> ''KEY''])
         ''secret.gpg'' = None
   \<and> fst (Encrypt wrapper (stubWorld [failing ''gpg: decryption failed''] [''key.asc'' \<mapsto> ''KEY''])
            ''secret.gpg'' ''secret'' [''0xDEADBEEF''])
       = Some (ProcError ''exit status 2'')
   \<and> snd (fst (ListPublicKeys countBytes wrapper
                (stubWorld [failing ''gpg: decryption failed''] [''key.asc'' \<mapsto> ''KEY''])))
       = Some (ProcError ''exit status 2'')
   \<and> fst (ExportPublicKey wrapper (stubWorld [failing ''gpg: decryption failed''] [''key.asc'' \<mapsto> ''KEY''])
            ''0xDEADBEEF'' ''out.asc'')
       = Some (Wrapped (''failed to run command '' @ [CHR 0x27]
                        @ ''gpg [gpg --quiet --yes --armor --export 0xDEADBEEF]'' @ [CHR 0x27])
                 (ProcError ''exit status 2''))
   \<and> fst (ImportPublicKey wrapper (stubWorld [failing ''gpg: decryption failed''] [''key.asc'' \<mapsto> ''KEY''])
            ''key.asc'')
       = Some (Wrapped (''failed to run command: '' @ [CHR 0x27]
                        @ ''gpg [gpg --quiet --yes --import]'' @ [CHR 0x27])
                 (ProcError ''exit status 2''))"
proof -
  have f: "failure (nextResponse (stubWorld [failing ''gpg: decryption failed''] [''key.asc'' \<mapsto> ''KEY'']))
     = Some (ProcError ''exit status 2'')"
    by (simp add: stubWorld_def failing_def)
  have c: "\<not> Contains (captured (nextResponse (stubWorld [failing ''gpg: decryption failed'']
                                             [''key.asc'' \<mapsto> ''KEY''])))
          ''secret key not available''"
    by (simp add: stubWorld_def failing_def)
  have n: "pubKeys wrapper = nil \<and> privKeys wrapper = nil"
    by (simp add: wrapper_def)
  have r: "ReadFile (stubWorld [failing ''gpg: decryption failed''] [''key.asc'' \<mapsto> ''KEY'']) ''key.asc''
       = Inr ''KEY''"
    by (simp add: ReadFile_def stubWorld_def)
  have m1: "fmtCmd (CommandContext (stubWorld [failing ''gpg: decryption failed''] [''key.asc'' \<mapsto> ''KEY''])
              (binary wrapper) (args wrapper @ [''--armor'', ''--export'', ''0xDEADBEEF'']))
            = ''gpg [gpg --quiet --yes --armor --export 0xDEADBEEF]''"
    by (simp add: fmtCmd_def CommandContext_def stubWorld_def wrapper_def)
  have m2: "fmtCmd ((CommandContext (stubWorld [failing ''gpg: decryption failed''] [''key.asc'' \<mapsto> ''KEY''])
              (binary wrapper) (args wrapper @ [''--import'']))\<lparr>Stdin := ''KEY''\<rparr>)
            = ''gpg [gpg --quiet --yes --import]''"
    by (simp add: fmtCmd_def CommandContext_def stubWorld_def wrapper_def)
  have d: "dirFaults (stubWorld [failing ''gpg: decryption failed''] [''key.asc'' \<mapsto> ''KEY''])
             ''secret.gpg'' = None"
    by (simp add: stubWorld_def)
  from invocation_failure_surfaced[OF f, where g = wrapper and path = "''secret.gpg''"
         and content = "''secret''" and recipients = "[''0xDEADBEEF'']"
         and sp = splitPacket and encrypted = "''file.gpg''" and pc = countBytes
         and ident = "''0xDEADBEEF''" and filename = "''out.asc''" and src = "''key.asc''"]
       f c n r m1 m2 d
  show ?thesis by simp
qed

theorem Decrypt_no_context_counterexample:
  "failure (nextResponse (stubWorld [failing ''gpg: decryption failed''] Map.empty))
     = Some (ProcError ''exit status 2'')
   \<and> snd (fst (Decrypt wrapper (stubWorld [failing ''gpg: decryption failed''] Map.empty) ''secret.gpg''))
     = Some (ProcError ''exit status 2'')
   \<and> \<not> hasContext (ProcError ''exit status 2'')"
  by (simp add: Decrypt_def Output_def invoke_def Let_def stubWorld_def failing_def)

text \<open>
  C9. When the external import command fails, \<open>ImportPublicKey\<close> returns an error
  (the error of the command, wrapped) and leaves the wrapper, with both caches, as it
  was; whenever \<open>ImportPublicKey\<close> returns an error, also for an unreadable file, the
  caches are unchanged, so they are cleared only by a successful import.
\<close>

theorem ImportPublicKey_failure_keeps_caches:
  "(\<forall>buf err. ReadFile w filename = Inr buf \<and> failure (nextResponse w) = Some err \<longrightarrow>
      (\<exists>msg. fst (ImportPublicKey g w filename) = Some (Wrapped msg err))
      \<and> fst (snd (ImportPublicKey g w filename)) = g)
   \<and> (fst (ImportPublicKey g w filename) \<noteq> None \<longrightarrow>
        pubKeys (fst (snd (ImportPublicKey g w filename))) = pubKeys g
      \<and> privKeys (fst (snd (ImportPublicKey g w filename))) = privKeys g)"
  by (auto simp: ImportPublicKey_def Run_def invoke_def Let_def split: sum.splits option.splits)

theorem ImportPublicKey_failure_keeps_caches_witness:
  "ReadFile (stubWorld [failing ''gpg: no valid OpenPGP data found.''] [''key.asc'' \<mapsto> ''KEY''])
       ''key.asc'' = Inr ''KEY''
   \<and> failure (nextResponse (stubWorld [failing ''gpg: no valid OpenPGP data found.'']
                                      [''key.asc'' \<mapsto> ''KEY'']))
       = Some (ProcError ''exit status 2'')
   \<and> fst (ImportPublicKey (wrapper\<lparr>pubKeys := KeyList [7], privKeys := KeyList [9]\<rparr>)
            (stubWorld [failing ''gpg: no valid OpenPGP data found.''] [''key.asc'' \<mapsto> ''KEY''])
            ''key.asc'') \<noteq> None
   \<and> fst (snd (ImportPublicKey (wrapper\<lparr>pubKeys := KeyList [7], privKeys := KeyList [9]\<rparr>)
            (stubWorld [failing ''gpg: no valid OpenPGP data found.''] [''key.asc'' \<mapsto> ''KEY''])
            ''key.asc''))
       = wrapper\<lparr>pubKeys := KeyList [7], privKeys := KeyList [9]\<rparr>"
proof -
  have r: "ReadFile (stubWorld [failing ''gpg: no valid OpenPGP data found.''] [''key.asc'' \<mapsto> ''KEY''])
       ''key.asc'' = Inr ''KEY''"
    by (simp add: ReadFile_def stubWorld_def)
  have f: "failure (nextResponse (stubWorld [failing ''gpg: no valid OpenPGP data found.'']
                                      [''key.asc'' \<mapsto> ''KEY'']))
       = Some (ProcError ''exit status 2'')"
    by (simp add: stubWorld_def failing_def)
  from ImportPublicKey_failure_keeps_caches[of
         "stubWorld [failing ''gpg: no valid OpenPGP data found.''] [''key.asc'' \<mapsto> ''KEY'']"
         "''key.asc''" "wrapper\<lparr>pubKeys := KeyList [7], privKeys := KeyList [9]\<rparr>"]
       r f
  show ?thesis by auto
qed

end
